theory Spec2Isabelle
  imports Complex_Main
begin

section \<open>The chart cache service (services/chart-cache-api/main.py)\<close>

text \<open>
  The service is three request handlers over one SQLite table. The embedding keeps the
  handlers as functions of their typed parameters, the table as the list of its rows in
  insertion order, every exception as a value of type \<open>error\<close>, and the two things the
  code reads from outside (the wall clock and the environment variable
  \<^verbatim>\<open>CHART_CACHE_API_KEY\<close>) as parameters.
\<close>

subsection \<open>Python values\<close>

text \<open>
  A Python \<^verbatim>\<open>float\<close> is a double. The service does no arithmetic on prices, so a
  finite double is kept as the rational it denotes and rounding is not modelled; the
  three non-finite values are kept apart because JSON serialisation treats them
  differently.
\<close>

datatype pyfloat = Finite rat | PosInf | NegInf | NaN

fun isfinite :: "pyfloat \<Rightarrow> bool" where
  "isfinite (Finite q) = True"
| "isfinite PosInf = False"
| "isfinite NegInf = False"
| "isfinite NaN = False"

text \<open>
  What \<^verbatim>\<open>json.loads\<close> returns: \<^verbatim>\<open>None\<close>, a bool, an int, a float, a str, a list
  or a dict. A dict is kept as the list of its items in insertion order; a key is looked
  up with \<open>map_of\<close>.
\<close>

datatype json =
    JNull
  | JBool bool
  | JInt int
  | JFloat pyfloat
  | JStr string
  | JArr "json list"
  | JObj "(string \<times> json) list"

text \<open>
  The \<^verbatim>\<open>payload\<close> column and a request body hold text. The service never looks at
  the characters: it gets the text from \<^verbatim>\<open>model_dump_json\<close> and hands it to
  \<^verbatim>\<open>json.loads\<close>. So a text is kept as what \<^verbatim>\<open>json.loads\<close> makes of it: the value
  it denotes when it is a JSON document, and the raw characters when it is not (then
  \<^verbatim>\<open>json.loads\<close> raises). This takes \<^verbatim>\<open>json.loads\<close> to read back what
  \<^verbatim>\<open>model_dump_json\<close> wrote, as it does for strings, for finite floats (both sides use
  the shortest decimal that names the double) and for integers short of the 4300 digits
  at which Python stops reading an integer literal.
\<close>

datatype json_text = Json json | NotJson string

fun json_loads :: "json_text \<Rightarrow> json option" where
  "json_loads (Json j) = Some j"
| "json_loads (NotJson s) = None"

subsection \<open>The pydantic models\<close>

record ChartPoint =
  timestamp :: int
  prices :: "(string \<times> pyfloat) list"

record ChartPayload =
  basketId :: string
  data :: "ChartPoint list"

text \<open>
  \<^verbatim>\<open>model_dump_json\<close> writes the declared fields in declaration order. pydantic writes
  a non-finite float as \<^verbatim>\<open>null\<close> (its default \<^verbatim>\<open>ser_json_inf_nan\<close>).
\<close>

definition dump_float :: "pyfloat \<Rightarrow> json" where
  "dump_float f = (if isfinite f then JFloat f else JNull)"

definition dump_ChartPoint :: "ChartPoint \<Rightarrow> json" where
  "dump_ChartPoint pt =
     JObj [(''timestamp'', JInt (timestamp pt)),
           (''prices'', JObj (map (\<lambda>(k, v). (k, dump_float v)) (prices pt)))]"

definition model_dump :: "ChartPayload \<Rightarrow> json" where
  "model_dump p =
     JObj [(''basketId'', JStr (basketId p)),
           (''data'', JArr (map dump_ChartPoint (data p)))]"

definition model_dump_json :: "ChartPayload \<Rightarrow> json_text" where
  "model_dump_json p = Json (model_dump p)"

subsection \<open>Errors\<close>

text \<open>
  \<open>HTTPException\<close> is what the handlers raise themselves. The others are raised by the
  libraries under them: FastAPI answers 422 when it cannot bind a handler's parameters
  and 500 when the returned value does not validate against the \<^verbatim>\<open>response_model\<close>;
  \<^verbatim>\<open>sqlite3\<close> raises \<open>OperationalError\<close> for a missing table and \<open>OverflowError\<close>
  for a Python int that does not fit SQLite's 64-bit INTEGER. An exception no handler
  catches is answered with 500.
\<close>

datatype error =
    HTTPException int string
  | RequestValidationError
  | ResponseValidationError
  | OperationalError
  | OverflowError

fun status_code :: "error \<Rightarrow> int" where
  "status_code (HTTPException c d) = c"
| "status_code RequestValidationError = 422"
| "status_code ResponseValidationError = 500"
| "status_code OperationalError = 500"
| "status_code OverflowError = 500"

subsection \<open>The table \<^verbatim>\<open>chart_cache\<close>\<close>

text \<open>
  What a read finds in the \<^verbatim>\<open>payload\<close> column: a value that \<^verbatim>\<open>sqlite3\<close> hands to
  Python and that so reaches \<^verbatim>\<open>json.loads\<close>, or TEXT that is not valid UTF-8, which
  \<^verbatim>\<open>sqlite3\<close> cannot turn into a \<^verbatim>\<open>str\<close>. The service itself only writes the first
  kind.
\<close>

datatype payload_column = Text json_text | NotUtf8

record row =
  basket_id :: string
  year :: int
  payload :: payload_column
  updated_at_ms :: int

text \<open>
  The database file: the table's rows once \<^verbatim>\<open>CREATE TABLE\<close> has run, and the number
  of connections opened so far, which is how the model tells whether a handler touched
  the storage. The file is taken to be readable and writable: \<^verbatim>\<open>sqlite3.connect\<close>
  does not fail.
\<close>

record world =
  chart_cache :: "row list option"
  connects :: nat

definition get_conn :: "world \<Rightarrow> world" where
  "get_conn w = w\<lparr>connects := Suc (connects w)\<rparr>"

definition sqlite_integer :: "int \<Rightarrow> bool" where
  "sqlite_integer n \<longleftrightarrow> - (2 ^ 63) \<le> n \<and> n < 2 ^ 63"

text \<open>\<^verbatim>\<open>WHERE basket_id = ? AND year = ?\<close>, then \<^verbatim>\<open>fetchone\<close>: the first matching row.\<close>

fun lookup :: "row list \<Rightarrow> string \<Rightarrow> int \<Rightarrow> row option" where
  "lookup [] b y = None"
| "lookup (r # rs) b y =
     (if basket_id r = b \<and> year r = y then Some r else lookup rs b y)"

text \<open>
  \<^verbatim>\<open>INSERT ... ON CONFLICT(basket_id, year) DO UPDATE SET payload = excluded.payload,
  updated_at_ms = excluded.updated_at_ms\<close>: the row that holds the key is rewritten where
  it stands; a new key is appended.
\<close>

fun upsert :: "row list \<Rightarrow> row \<Rightarrow> row list" where
  "upsert [] n = [n]"
| "upsert (r # rs) n =
     (if basket_id r = basket_id n \<and> year r = year n
      then r\<lparr>payload := payload n, updated_at_ms := updated_at_ms n\<rparr> # rs
      else r # upsert rs n)"

text \<open>
  \<^verbatim>\<open>conn.execute\<close> first compiles the statement (a missing table fails here) and then
  binds the parameters (an int outside 64 bits fails here). \<^verbatim>\<open>fetchone\<close> then builds
  the row, and raises \<open>OperationalError\<close> when the payload is TEXT that is not UTF-8.
  In \<^verbatim>\<open>get_chart\<close> both calls stand before the \<^verbatim>\<open>try\<close>, so nothing catches either.
\<close>

definition execute_select ::
  "row list option \<Rightarrow> string \<Rightarrow> int \<Rightarrow> error + json_text option" where
  "execute_select tbl b y =
     (case tbl of
        None \<Rightarrow> Inl OperationalError
      | Some rows \<Rightarrow>
          if sqlite_integer y
          then (case lookup rows b y of
                  None \<Rightarrow> Inr None
                | Some r \<Rightarrow>
                    (case payload r of
                       Text txt \<Rightarrow> Inr (Some txt)
                     | NotUtf8 \<Rightarrow> Inl OperationalError))
          else Inl OverflowError)"

definition execute_upsert ::
  "row list option \<Rightarrow> string \<Rightarrow> int \<Rightarrow> json_text \<Rightarrow> int \<Rightarrow> error + row list" where
  "execute_upsert tbl b y txt ms =
     (case tbl of
        None \<Rightarrow> Inl OperationalError
      | Some rows \<Rightarrow>
          if sqlite_integer y \<and> sqlite_integer ms
          then Inr (upsert rows
                 \<lparr>basket_id = b, year = y, payload = Text txt, updated_at_ms = ms\<rparr>)
          else Inl OverflowError)"

definition init_db :: "world \<Rightarrow> world" where
  "init_db w =
     (let w1 = get_conn w in
      w1\<lparr>chart_cache :=
           Some (case chart_cache w1 of None \<Rightarrow> [] | Some rows \<Rightarrow> rows)\<rparr>)"

definition on_startup :: "world \<Rightarrow> world" where
  "on_startup w = init_db w"

subsection \<open>The handlers\<close>

text \<open>
  \<^verbatim>\<open>if not API_KEY: return\<close> lets every request through when the variable is unset
  (\<open>None\<close>) or empty; otherwise \<^verbatim>\<open>x_api_key != API_KEY\<close> compares the header, which is
  \<open>None\<close> when absent, with the secret.
\<close>

definition require_api_key :: "string option \<Rightarrow> string option \<Rightarrow> error + unit" where
  "require_api_key API_KEY x_api_key =
     (if API_KEY = None \<or> API_KEY = Some [] then Inr ()
      else if x_api_key \<noteq> API_KEY then Inl (HTTPException 401 ''Unauthorized'')
      else Inr ())"

definition get_chart ::
  "string option \<Rightarrow> world \<Rightarrow> string \<Rightarrow> int \<Rightarrow> string option \<Rightarrow> (error + json) \<times> world" where
  "get_chart API_KEY w b y x_api_key =
     (case require_api_key API_KEY x_api_key of
        Inl e \<Rightarrow> (Inl e, w)
      | Inr u \<Rightarrow>
          let w1 = get_conn w in
          (case execute_select (chart_cache w1) b y of
             Inl e \<Rightarrow> (Inl e, w1)
           | Inr None \<Rightarrow> (Inl (HTTPException 404 ''Not found''), w1)
           | Inr (Some txt) \<Rightarrow>
               (case json_loads txt of
                  None \<Rightarrow> (Inl (HTTPException 500 ''Corrupted payload''), w1)
                | Some j \<Rightarrow> (Inr j, w1))))"

record upsert_response =
  ok :: bool
  updatedAtMs :: int

text \<open>\<open>now_ms\<close> is \<^verbatim>\<open>int(time.time() * 1000)\<close>, the clock as the handler reads it.\<close>

definition upsert_chart ::
  "string option \<Rightarrow> int \<Rightarrow> world \<Rightarrow> string \<Rightarrow> int \<Rightarrow> ChartPayload \<Rightarrow> string option
     \<Rightarrow> (error + upsert_response) \<times> world" where
  "upsert_chart API_KEY now_ms w b y p x_api_key =
     (case require_api_key API_KEY x_api_key of
        Inl e \<Rightarrow> (Inl e, w)
      | Inr u \<Rightarrow>
          if basketId p \<noteq> b then (Inl (HTTPException 400 ''basketId mismatch''), w)
          else
            let w1 = get_conn w in
            (case execute_upsert (chart_cache w1) b y (model_dump_json p) now_ms of
               Inl e \<Rightarrow> (Inl e, w1)
             | Inr rows \<Rightarrow>
                 (Inr \<lparr>ok = True, updatedAtMs = now_ms\<rparr>, w1\<lparr>chart_cache := Some rows\<rparr>)))"

subsection \<open>What FastAPI does around the handlers\<close>

text \<open>
  The route decorators and the handlers' signatures hand two jobs to FastAPI. Before it
  calls \<^verbatim>\<open>upsert_chart\<close> it builds the argument \<^verbatim>\<open>payload: ChartPayload\<close> from the
  request body, and answers 422 itself when the body is not JSON or does not validate.
  After \<^verbatim>\<open>get_chart\<close> returns it validates the returned value against
  \<^verbatim>\<open>response_model=ChartPayload\<close>, and answers 500 when that fails.

  The shape pydantic checks is the one the two classes declare: an object with the
  declared fields (others are ignored), a list of points, a dict of prices. How it
  validates the three scalar types (which strings it reads as numbers, and so on) is
  not in the repository and enters as a parameter.
\<close>

record scalar_validators =
  validate_int :: "json \<Rightarrow> int option"
  validate_float :: "json \<Rightarrow> pyfloat option"
  validate_str :: "json \<Rightarrow> string option"


text \<open>
  One such set of validators: pydantic's strict mode, which converts nothing but int to
  float.
\<close>

definition strict_scalars :: scalar_validators where
  "strict_scalars =
     \<lparr>validate_int = (\<lambda>j. case j of JInt n \<Rightarrow> Some n | _ \<Rightarrow> None),
      validate_float =
        (\<lambda>j. case j of JFloat f \<Rightarrow> Some f | JInt n \<Rightarrow> Some (Finite (of_int n)) | _ \<Rightarrow> None),
      validate_str = (\<lambda>j. case j of JStr s \<Rightarrow> Some s | _ \<Rightarrow> None)\<rparr>"

fun validate_prices ::
  "scalar_validators \<Rightarrow> (string \<times> json) list \<Rightarrow> (string \<times> pyfloat) list option" where
  "validate_prices V [] = Some []"
| "validate_prices V ((k, v) # kvs) =
     (case validate_float V v of
        None \<Rightarrow> None
      | Some f \<Rightarrow> map_option ((#) (k, f)) (validate_prices V kvs))"

definition validate_ChartPoint :: "scalar_validators \<Rightarrow> json \<Rightarrow> ChartPoint option" where
  "validate_ChartPoint V j =
     (case j of
        JObj kvs \<Rightarrow>
          (case map_of kvs ''timestamp'' of
             None \<Rightarrow> None
           | Some tj \<Rightarrow>
               (case validate_int V tj of
                  None \<Rightarrow> None
                | Some ts \<Rightarrow>
                    (case map_of kvs ''prices'' of
                       Some (JObj ps) \<Rightarrow>
                         map_option (\<lambda>pr. \<lparr>timestamp = ts, prices = pr\<rparr>)
                           (validate_prices V ps)
                     | _ \<Rightarrow> None)))
      | _ \<Rightarrow> None)"

fun validate_points :: "scalar_validators \<Rightarrow> json list \<Rightarrow> ChartPoint list option" where
  "validate_points V [] = Some []"
| "validate_points V (j # js) =
     (case validate_ChartPoint V j of
        None \<Rightarrow> None
      | Some pt \<Rightarrow> map_option ((#) pt) (validate_points V js))"

definition validate_ChartPayload :: "scalar_validators \<Rightarrow> json \<Rightarrow> ChartPayload option" where
  "validate_ChartPayload V j =
     (case j of
        JObj kvs \<Rightarrow>
          (case map_of kvs ''basketId'' of
             None \<Rightarrow> None
           | Some bj \<Rightarrow>
               (case validate_str V bj of
                  None \<Rightarrow> None
                | Some b \<Rightarrow>
                    (case map_of kvs ''data'' of
                       Some (JArr js) \<Rightarrow>
                         map_option (\<lambda>pts. \<lparr>basketId = b, data = pts\<rparr>)
                           (validate_points V js)
                     | _ \<Rightarrow> None)))
      | _ \<Rightarrow> None)"

text \<open>
  \<^verbatim>\<open>GET /charts/{basket_id}?year=\<close>: the handler, then the response model. The model
  it yields is what FastAPI writes as the response body.
\<close>

definition GET_charts ::
  "scalar_validators \<Rightarrow> string option \<Rightarrow> world \<Rightarrow> string \<Rightarrow> int \<Rightarrow> string option
     \<Rightarrow> (error + ChartPayload) \<times> world" where
  "GET_charts V API_KEY w b y x_api_key =
     (case get_chart API_KEY w b y x_api_key of
        (Inl e, w') \<Rightarrow> (Inl e, w')
      | (Inr j, w') \<Rightarrow>
          (case validate_ChartPayload V j of
             None \<Rightarrow> (Inl ResponseValidationError, w')
           | Some p \<Rightarrow> (Inr p, w')))"


subsection \<open>Runs of the service\<close>

text \<open>
  A call of one of the two handlers; a write carries the clock reading it will make.
  \<open>serve\<close> runs a sequence of calls on the database, one after the other.
\<close>

datatype request =
    Read string int "string option"
  | Write string int ChartPayload "string option" int

fun handle :: "string option \<Rightarrow> world \<Rightarrow> request \<Rightarrow> world" where
  "handle API_KEY w (Read b y k) = snd (get_chart API_KEY w b y k)"
| "handle API_KEY w (Write b y p k now_ms) = snd (upsert_chart API_KEY now_ms w b y p k)"

definition serve :: "string option \<Rightarrow> world \<Rightarrow> request list \<Rightarrow> world" where
  "serve API_KEY w reqs = foldl (handle API_KEY) w reqs"

text \<open>A database file before the service first starts: no table, never opened.\<close>

definition fresh :: world where
  "fresh = \<lparr>chart_cache = None, connects = 0\<rparr>"

text \<open>The row stored under a key, and the rows of the table.\<close>

definition stored :: "world \<Rightarrow> string \<Rightarrow> int \<Rightarrow> row option" where
  "stored w b y = (case chart_cache w of None \<Rightarrow> None | Some rows \<Rightarrow> lookup rows b y)"

definition rows_of :: "world \<Rightarrow> row list" where
  "rows_of w = (case chart_cache w of None \<Rightarrow> [] | Some rows \<Rightarrow> rows)"

definition key_of :: "row \<Rightarrow> string \<times> int" where
  "key_of r = (basket_id r, year r)"

text \<open>The table exists: \<^verbatim>\<open>init_db\<close> has run on this file.\<close>

definition initialised :: "world \<Rightarrow> bool" where
  "initialised w \<longleftrightarrow> chart_cache w \<noteq> None"

text \<open>The primary key: no two rows of the table hold the same \<open>(basket_id, year)\<close>.\<close>

definition primary_key_unique :: "world \<Rightarrow> bool" where
  "primary_key_unique w \<longleftrightarrow> distinct (map key_of (rows_of w))"

text \<open>
  The keys of the writes that a run performs, that is, of the calls of \<open>upsert_chart\<close>
  that reach the upsert and commit.
\<close>

fun performed :: "string option \<Rightarrow> world \<Rightarrow> request list \<Rightarrow> (string \<times> int) list" where
  "performed API_KEY w [] = []"
| "performed API_KEY w (Read b y k # reqs) =
     performed API_KEY (handle API_KEY w (Read b y k)) reqs"
| "performed API_KEY w (Write b y p k now_ms # reqs) =
     (case fst (upsert_chart API_KEY now_ms w b y p k) of
        Inl e \<Rightarrow> []
      | Inr r \<Rightarrow> [(b, y)])
     @ performed API_KEY (handle API_KEY w (Write b y p k now_ms)) reqs"

text \<open>
  Decoding a text into the model: \<^verbatim>\<open>json.loads\<close>, then validation. It is what
  FastAPI does with a request body, and what \<^verbatim>\<open>get_chart\<close> and the response model do
  together with a stored payload.
\<close>

definition decode :: "scalar_validators \<Rightarrow> json_text \<Rightarrow> ChartPayload option" where
  "decode V txt =
     (case json_loads txt of None \<Rightarrow> None | Some j \<Rightarrow> validate_ChartPayload V j)"

text \<open>
  The same for what a read finds in the column; TEXT that is not UTF-8 decodes to
  nothing.
\<close>

definition decode_stored :: "scalar_validators \<Rightarrow> payload_column \<Rightarrow> ChartPayload option" where
  "decode_stored V c = (case c of Text txt \<Rightarrow> decode V txt | NotUtf8 \<Rightarrow> None)"



subsection \<open>The example scenario\<close>

text \<open>
  One basket-year as a client would send it, the same with a second point appended, and
  the database after the service has started on a new file.
\<close>

definition tech5 :: ChartPayload where
  "tech5 =
     \<lparr>basketId = ''tech-5'',
      data = [\<lparr>timestamp = 1700000000000,
               prices = [(''AAPL'', Finite 190.5), (''MSFT'', Finite 410.2)]\<rparr>]\<rparr>"

definition tech5_more :: ChartPayload where
  "tech5_more =
     tech5\<lparr>data := data tech5 @
       [\<lparr>timestamp = 1700086400000,
         prices = [(''AAPL'', Finite 191.0), (''MSFT'', Finite 412.8)]\<rparr>]\<rparr>"




definition started :: world where
  "started = on_startup fresh"

section \<open>Properties\<close>

subsection \<open>The table\<close>

lemma lookup_upsert_same:
  "lookup (upsert rows n) (basket_id n) (year n) =
     Some (case lookup rows (basket_id n) (year n) of
             None \<Rightarrow> n
           | Some r \<Rightarrow> r\<lparr>payload := payload n, updated_at_ms := updated_at_ms n\<rparr>)"
  by (induction rows) auto

lemma lookup_upsert_other:
  "b \<noteq> basket_id n \<or> y \<noteq> year n \<Longrightarrow> lookup (upsert rows n) b y = lookup rows b y"
  by (induction rows) auto

lemma lookup_None_iff: "lookup rows b y = None \<longleftrightarrow> (b, y) \<notin> set (map key_of rows)"
  by (induction rows) (auto simp: key_of_def)

lemma lookup_Some_key:
  "lookup rows b y = Some r \<Longrightarrow> basket_id r = b \<and> year r = y \<and> r \<in> set rows"
  by (induction rows) (auto split: if_splits)

lemma keys_upsert:
  "map key_of (upsert rows n) =
     (if key_of n \<in> set (map key_of rows) then map key_of rows
      else map key_of rows @ [key_of n])"
  by (induction rows) (auto simp: key_of_def)

lemma set_keys_upsert:
  "set (map key_of (upsert rows n)) = insert (key_of n) (set (map key_of rows))"
  by (auto simp: keys_upsert)

lemma length_upsert:
  "length (upsert rows n) =
     (if key_of n \<in> set (map key_of rows) then length rows else Suc (length rows))"
  by (induction rows) (auto simp: key_of_def)

lemma upsert_in_place:
  "distinct (map key_of rows) \<Longrightarrow> key_of n \<in> set (map key_of rows) \<Longrightarrow>
   upsert rows n =
     map (\<lambda>r. if key_of r = key_of n
              then r\<lparr>payload := payload n, updated_at_ms := updated_at_ms n\<rparr> else r) rows"
proof (induction rows)
  case Nil then show ?case by simp
next
  case (Cons r rows)
  show ?case
  proof (cases "key_of r = key_of n")
    case True
    from Cons.prems(1) have "key_of r \<notin> set (map key_of rows)" by simp
    with True have "\<forall>x\<in>set rows. key_of x \<noteq> key_of n"
      by (metis imageI list.set_map)
    then have "map (\<lambda>r. if key_of r = key_of n
        then r\<lparr>payload := payload n, updated_at_ms := updated_at_ms n\<rparr> else r) rows = rows"
      by (induction rows) auto
    with True show ?thesis by (simp add: key_of_def)
  next
    case False
    with Cons show ?thesis by (auto simp: key_of_def)
  qed
qed

lemma upsert_twice:
  "basket_id n' = basket_id n \<Longrightarrow> year n' = year n \<Longrightarrow> payload n' = payload n \<Longrightarrow>
   map payload (upsert (upsert rows n) n') = map payload (upsert rows n) \<and>
   map key_of (upsert (upsert rows n) n') = map key_of (upsert rows n)"
  by (induction rows) (auto simp: key_of_def)

subsection \<open>One call of a handler\<close>



lemma stored_rows: "stored w b y = lookup (rows_of w) b y"
  by (simp add: stored_def rows_of_def split: option.splits)



lemma upsert_chart_cases:
  "upsert_chart K now w b y p k = (Inr r, w') \<Longrightarrow>
   r = \<lparr>ok = True, updatedAtMs = now\<rparr> \<and> basketId p = b \<and>
   rows_of w' = upsert (rows_of w)
       \<lparr>basket_id = b, year = y, payload = Text (model_dump_json p), updated_at_ms = now\<rparr> \<and>
   initialised w \<and> initialised w' \<and> connects w' = Suc (connects w)"
  by (auto simp: upsert_chart_def get_conn_def execute_upsert_def Let_def rows_of_def initialised_def
      split: sum.splits if_splits option.splits)

lemma upsert_chart_failed:
  "upsert_chart K now w b y p k = (Inl e, w') \<Longrightarrow> chart_cache w' = chart_cache w"
  by (auto simp: upsert_chart_def get_conn_def execute_upsert_def Let_def
      split: sum.splits if_splits option.splits)

lemma upsert_chart_stored_other:
  assumes "b1 \<noteq> b2 \<or> y1 \<noteq> y2"
  shows "stored (snd (upsert_chart K now w b1 y1 p k)) b2 y2 = stored w b2 y2"
  using assms lookup_upsert_other [of b2 "\<lparr>basket_id = b1, year = y1, payload = Text (model_dump_json p), updated_at_ms = now\<rparr>" y2]
  by (auto simp: upsert_chart_def get_conn_def execute_upsert_def Let_def stored_def
      split: sum.splits if_splits option.splits)

lemma upsert_chart_initialised:
  "initialised (snd (upsert_chart K now w b y p k)) = initialised w"
  by (auto simp: upsert_chart_def get_conn_def execute_upsert_def Let_def initialised_def
      split: sum.splits if_splits option.splits)


lemma get_chart_fst:
  "fst (get_chart K w b y k) =
     (case require_api_key K k of
        Inl e \<Rightarrow> Inl e
      | Inr u \<Rightarrow>
          if \<not> initialised w then Inl OperationalError
          else if \<not> sqlite_integer y then Inl OverflowError
          else (case stored w b y of
                  None \<Rightarrow> Inl (HTTPException 404 ''Not found'')
                | Some r \<Rightarrow>
                    (case payload r of
                       NotUtf8 \<Rightarrow> Inl OperationalError
                     | Text txt \<Rightarrow>
                         (case json_loads txt of
                            None \<Rightarrow> Inl (HTTPException 500 ''Corrupted payload'')
                          | Some j \<Rightarrow> Inr j))))"
  by (auto simp: get_chart_def get_conn_def execute_select_def Let_def stored_def initialised_def
      split: sum.splits option.splits payload_column.splits)

lemma GET_charts_fst:
  "fst (GET_charts V K w b y k) =
     (case fst (get_chart K w b y k) of
        Inl e \<Rightarrow> Inl e
      | Inr j \<Rightarrow>
          (case validate_ChartPayload V j of
             None \<Rightarrow> Inl ResponseValidationError
           | Some p \<Rightarrow> Inr p))"
  by (simp add: GET_charts_def split: prod.splits sum.splits option.splits)



subsection \<open>Runs of the service\<close>

lemma rows_of_handle_keys:
  "set (map key_of (rows_of (handle K w r))) \<subseteq> set (map key_of (rows_of w)) \<union> set (performed K w [r])"
proof (cases r)
  case (Read b y k)
  then show ?thesis
    by (auto simp: get_chart_def get_conn_def rows_of_def execute_select_def Let_def
        split: sum.splits option.splits if_splits payload_column.splits)
next
  case (Write b y p k now)
  then show ?thesis
    using set_keys_upsert [of _ "\<lparr>basket_id = b, year = y, payload = Text (model_dump_json p), updated_at_ms = now\<rparr>"]
    by (auto simp: upsert_chart_def get_conn_def rows_of_def execute_upsert_def Let_def key_of_def
        simp del: set_map
        split: sum.splits option.splits if_splits)
qed

lemma serve_keys:
  "set (map key_of (rows_of (serve K w reqs))) \<subseteq> set (map key_of (rows_of w)) \<union> set (performed K w reqs)"
proof (induction reqs arbitrary: w)
  case Nil
  then show ?case by (simp add: serve_def)
next
  case (Cons r reqs)
  have step: "set (map key_of (rows_of (handle K w r))) \<subseteq> set (map key_of (rows_of w)) \<union> set (performed K w [r])"
    by (rule rows_of_handle_keys)
  have perf: "set (performed K w (r # reqs)) = set (performed K w [r]) \<union> set (performed K (handle K w r) reqs)"
    by (cases r) auto
  have "serve K w (r # reqs) = serve K (handle K w r) reqs" by (simp add: serve_def)
  with Cons.IH [of "handle K w r"] step perf show ?case by auto
qed

lemma handle_unique: "primary_key_unique w \<Longrightarrow> primary_key_unique (handle K w r)"
proof (cases r)
  case (Read b y k)
  assume "primary_key_unique w"
  with Read show ?thesis
    by (auto simp: primary_key_unique_def get_chart_def get_conn_def rows_of_def execute_select_def Let_def
        split: sum.splits option.splits if_splits)
next
  case (Write b y p k now)
  assume "primary_key_unique w"
  with Write show ?thesis
    by (auto simp: primary_key_unique_def upsert_chart_def get_conn_def rows_of_def execute_upsert_def
        Let_def keys_upsert
        split: sum.splits option.splits if_splits)
qed

lemma serve_unique: "primary_key_unique w \<Longrightarrow> primary_key_unique (serve K w reqs)"
  unfolding serve_def by (induction reqs arbitrary: w) (auto simp: handle_unique)

lemma startup_unique: "primary_key_unique w \<Longrightarrow> primary_key_unique (on_startup w)"
  by (auto simp: primary_key_unique_def on_startup_def init_db_def get_conn_def rows_of_def Let_def split: option.splits)

lemma fresh_unique: "primary_key_unique fresh"
  by (simp add: primary_key_unique_def fresh_def rows_of_def)

lemma handle_initialised: "initialised w \<Longrightarrow> initialised (handle K w r)"
  by (cases r) (auto simp: initialised_def get_chart_def upsert_chart_def get_conn_def execute_select_def execute_upsert_def Let_def
        split: sum.splits option.splits if_splits)

lemma serve_initialised: "initialised w \<Longrightarrow> initialised (serve K w reqs)"
  unfolding serve_def by (induction reqs arbitrary: w) (simp_all add: handle_initialised)

lemma startup_initialised: "initialised (on_startup w)"
  by (simp add: initialised_def on_startup_def init_db_def Let_def)

subsection \<open>Serialising and validating\<close>







subsection \<open>The example scenario, evaluated\<close>

lemma started_eq: "started = \<lparr>chart_cache = Some [], connects = 1\<rparr>"
  by (simp add: started_def on_startup_def init_db_def get_conn_def fresh_def Let_def)

lemma write_example:
  "upsert_chart None 1700000000001 started ''tech-5'' 2024 tech5 None =
     (Inr \<lparr>ok = True, updatedAtMs = 1700000000001\<rparr>,
      \<lparr>chart_cache = Some [\<lparr>basket_id = ''tech-5'', year = 2024,
          payload = Text (model_dump_json tech5), updated_at_ms = 1700000000001\<rparr>], connects = 2\<rparr>)"
  by (simp add: started_eq upsert_chart_def require_api_key_def tech5_def get_conn_def
      execute_upsert_def sqlite_integer_def)



subsection \<open>Round trip\<close>




subsection \<open>The authorization gate\<close>




subsection \<open>The primary key\<close>

text \<open>
  C3. After any sequence of calls of the handlers on a database the service has started
  on, no two rows of the table hold the same \<open>(basket_id, year)\<close>: from a new file, and
  from any file that satisfied this before. A write whose key is already in the table
  rewrites \<open>payload\<close> and \<open>updated_at_ms\<close> of the row that holds the key, where the row
  stands: every other row is as it was, in the same place, and the table is no longer
  than before.
\<close>

theorem primary_key_invariant:
  "primary_key_unique (serve K (on_startup fresh) reqs) \<and>
   (primary_key_unique w \<longrightarrow> primary_key_unique (serve K (on_startup w) reqs)) \<and>
   (primary_key_unique w \<and> stored w b y = Some old \<and>
    upsert_chart K now w b y p k = (Inr r, w') \<longrightarrow>
      rows_of w' =
        map (\<lambda>x. if key_of x = (b, y)
                 then x\<lparr>payload := Text (model_dump_json p), updated_at_ms := now\<rparr> else x)
          (rows_of w) \<and>
      length (rows_of w') = length (rows_of w) \<and>
      stored w' b y = Some (old\<lparr>payload := Text (model_dump_json p), updated_at_ms := now\<rparr>))"
proof (intro conjI impI)
  show "primary_key_unique (serve K (on_startup fresh) reqs)"
    by (simp add: serve_unique startup_unique fresh_unique)
  show "primary_key_unique (serve K (on_startup w) reqs)" if "primary_key_unique w"
    using that by (simp add: serve_unique startup_unique)
next
  assume a: "primary_key_unique w \<and> stored w b y = Some old \<and>
    upsert_chart K now w b y p k = (Inr r, w')"
  let ?n = "\<lparr>basket_id = b, year = y, payload = Text (model_dump_json p), updated_at_ms = now\<rparr>"
  from a have rows: "rows_of w' = upsert (rows_of w) ?n"
    using upsert_chart_cases [of K now w b y p k r w'] by blast
  from a have old: "lookup (rows_of w) b y = Some old" by (simp add: stored_rows)
  then have mem: "key_of ?n \<in> set (map key_of (rows_of w))"
    using lookup_None_iff [of "rows_of w" b y] by (simp add: key_of_def)
  from a have dist: "distinct (map key_of (rows_of w))" by (simp add: primary_key_unique_def)
  show "rows_of w' =
        map (\<lambda>x. if key_of x = (b, y)
                 then x\<lparr>payload := Text (model_dump_json p), updated_at_ms := now\<rparr> else x)
          (rows_of w)"
    using upsert_in_place [OF dist mem] rows by (simp add: key_of_def)
  show "length (rows_of w') = length (rows_of w)"
    using mem rows by (simp add: length_upsert)
  show "stored w' b y = Some (old\<lparr>payload := Text (model_dump_json p), updated_at_ms := now\<rparr>)"
    using lookup_upsert_same [of "rows_of w" ?n] old rows by (simp add: stored_rows)
qed

theorem primary_key_invariant_witness:
  "primary_key_unique
     (serve None (on_startup fresh)
        [Write ''tech-5'' 2024 tech5 None 1700000000001,
         Read ''tech-5'' 2024 None,
         Write ''tech-5'' 2024 tech5_more None 1700000000002]) \<and>
   rows_of
     (serve None (on_startup fresh)
        [Write ''tech-5'' 2024 tech5 None 1700000000001,
         Read ''tech-5'' 2024 None,
         Write ''tech-5'' 2024 tech5_more None 1700000000002]) =
     [\<lparr>basket_id = ''tech-5'', year = 2024, payload = Text (model_dump_json tech5_more),
       updated_at_ms = 1700000000002\<rparr>]"
proof -
  let ?r1 = "\<lparr>basket_id = ''tech-5'', year = 2024, payload = Text (model_dump_json tech5),
       updated_at_ms = 1700000000001\<rparr>"
  let ?w1 = "\<lparr>chart_cache = Some [?r1], connects = 3\<rparr>"
  let ?w2 = "\<lparr>chart_cache = Some [\<lparr>basket_id = ''tech-5'', year = 2024, payload = Text (model_dump_json tech5_more),
       updated_at_ms = 1700000000002\<rparr>], connects = 4\<rparr>"
  let ?reqs = "[Write ''tech-5'' 2024 tech5 None 1700000000001,
         Read ''tech-5'' 2024 None,
         Write ''tech-5'' 2024 tech5_more None 1700000000002]"
  have run1: "serve None (on_startup fresh)
        [Write ''tech-5'' 2024 tech5 None 1700000000001, Read ''tech-5'' 2024 None] = ?w1"
    using started_eq write_example
    by (simp add: serve_def started_def get_chart_def require_api_key_def get_conn_def
        execute_select_def sqlite_integer_def model_dump_json_def)
  have run: "serve None (on_startup fresh) ?reqs = snd (upsert_chart None 1700000000002 ?w1 ''tech-5'' 2024 tech5_more None)"
    using run1 by (simp add: serve_def)
  have put2: "upsert_chart None 1700000000002 ?w1 ''tech-5'' 2024 tech5_more None =
     (Inr \<lparr>ok = True, updatedAtMs = 1700000000002\<rparr>, ?w2)"
    by (simp add: upsert_chart_def require_api_key_def tech5_more_def tech5_def get_conn_def
      execute_upsert_def sqlite_integer_def)
  have uniq: "primary_key_unique ?w1"
    by (simp add: primary_key_unique_def rows_of_def)
  have old: "stored ?w1 ''tech-5'' 2024 = Some ?r1"
    by (simp add: stored_def)
  from primary_key_invariant [of None ?reqs ?w1 "''tech-5''" 2024 ?r1 1700000000002 tech5_more None
      "\<lparr>ok = True, updatedAtMs = 1700000000002\<rparr>" ?w2] uniq old put2 run
  show ?thesis by (simp add: rows_of_def key_of_def)
qed

subsection \<open>A body for another basket\<close>




subsection \<open>A stored payload that does not decode\<close>

text \<open>
  C5. Let the table hold a row at \<open>(b, y)\<close> whose payload does not decode into a
  \<open>ChartPayload\<close>, whatever the scalar validators are. A read of \<open>(b, y)\<close> never returns
  a payload, and with a credential the gate accepts it is answered with status 500.
  For a year that fits the INTEGER column: when the payload is TEXT that is not UTF-8,
  \<^verbatim>\<open>fetchone\<close> raises \<open>OperationalError\<close>; when it is text that is not JSON, the handler
  raises \<open>HTTPException 500\<close> itself; when it is JSON of another shape, the handler
  returns the value and the response model refuses it. (A year that does not fit the
  column cannot be bound, which is a 500 as well.)
\<close>

theorem corrupt_payload_is_500:
  assumes "stored w b y = Some r" and "decode_stored V (payload r) = None"
  shows "(\<exists>e. fst (GET_charts V K w b y k) = Inl e) \<and>
     (require_api_key K k = Inr () \<longrightarrow>
        (\<exists>e. fst (GET_charts V K w b y k) = Inl e \<and> status_code e = 500) \<and>
        (sqlite_integer y \<and> payload r = NotUtf8 \<longrightarrow>
           fst (get_chart K w b y k) = Inl OperationalError) \<and>
        (\<forall>txt. sqlite_integer y \<and> payload r = Text txt \<and> json_loads txt = None \<longrightarrow>
           fst (get_chart K w b y k) = Inl (HTTPException 500 ''Corrupted payload'')) \<and>
        (\<forall>txt j. sqlite_integer y \<and> payload r = Text txt \<and> json_loads txt = Some j \<longrightarrow>
           fst (get_chart K w b y k) = Inr j \<and>
           fst (GET_charts V K w b y k) = Inl ResponseValidationError))"
proof -
  from assms(1) have init: "initialised w"
    by (auto simp: stored_def initialised_def split: option.splits)
  show ?thesis
  proof (cases "require_api_key K k")
    case (Inl e)
    then show ?thesis by (simp add: GET_charts_fst get_chart_fst)
  next
    case (Inr u)
    show ?thesis
    proof (cases "sqlite_integer y")
      case False
      with Inr init show ?thesis by (simp add: GET_charts_fst get_chart_fst)
    next
      case True
      show ?thesis
      proof (cases "payload r")
        case NotUtf8
        with Inr True assms init show ?thesis by (simp add: GET_charts_fst get_chart_fst)
      next
        case (Text t)
        show ?thesis
        proof (cases "json_loads t")
          case None
          with Text Inr True assms init show ?thesis
            by (simp add: GET_charts_fst get_chart_fst)
        next
          case (Some j)
          with Text assms(2) have "validate_ChartPayload V j = None"
            by (simp add: decode_stored_def decode_def)
          with Some Text Inr True assms init show ?thesis
            by (simp add: GET_charts_fst get_chart_fst)
        qed
      qed
    qed
  qed
qed

theorem corrupt_payload_is_500_witness:
  "fst (get_chart None
     \<lparr>chart_cache = Some [\<lparr>basket_id = ''tech-5'', year = 2024,
          payload = Text (NotJson ''{not json''), updated_at_ms = 1700000000001\<rparr>],
       connects = 2\<rparr> ''tech-5'' 2024 None) = Inl (HTTPException 500 ''Corrupted payload'') \<and>
   fst (GET_charts strict_scalars None
     \<lparr>chart_cache = Some [\<lparr>basket_id = ''tech-5'', year = 2024,
          payload = Text (Json (JArr [])), updated_at_ms = 1700000000001\<rparr>],
       connects = 2\<rparr> ''tech-5'' 2024 None) = Inl ResponseValidationError \<and>
   fst (get_chart None
     \<lparr>chart_cache = Some [\<lparr>basket_id = ''tech-5'', year = 2024,
          payload = NotUtf8, updated_at_ms = 1700000000001\<rparr>],
       connects = 2\<rparr> ''tech-5'' 2024 None) = Inl OperationalError \<and>
   status_code ResponseValidationError = 500 \<and> status_code OperationalError = 500"
proof -
  let ?r1 = "\<lparr>basket_id = ''tech-5'', year = 2024,
          payload = Text (NotJson ''{not json''), updated_at_ms = 1700000000001\<rparr>"
  let ?r2 = "\<lparr>basket_id = ''tech-5'', year = 2024,
          payload = Text (Json (JArr [])), updated_at_ms = 1700000000001\<rparr>"
  let ?r3 = "\<lparr>basket_id = ''tech-5'', year = 2024,
          payload = NotUtf8, updated_at_ms = 1700000000001\<rparr>"
  let ?w1 = "\<lparr>chart_cache = Some [?r1], connects = 2\<rparr>"
  let ?w2 = "\<lparr>chart_cache = Some [?r2], connects = 2\<rparr>"
  let ?w3 = "\<lparr>chart_cache = Some [?r3], connects = 2\<rparr>"
  have s1: "stored ?w1 ''tech-5'' 2024 = Some ?r1"
    and s2: "stored ?w2 ''tech-5'' 2024 = Some ?r2"
    and s3: "stored ?w3 ''tech-5'' 2024 = Some ?r3"
    by (simp_all add: stored_def)
  have d1: "decode_stored strict_scalars (payload ?r1) = None"
    and d2: "decode_stored strict_scalars (payload ?r2) = None"
    and d3: "decode_stored strict_scalars (payload ?r3) = None"
    by (simp_all add: decode_stored_def decode_def validate_ChartPayload_def)
  have y: "sqlite_integer 2024" by (simp add: sqlite_integer_def)
  have g: "require_api_key None None = Inr ()" by (simp add: require_api_key_def)
  from corrupt_payload_is_500 [OF s1 d1, of None None]
    corrupt_payload_is_500 [OF s2 d2, of None None]
    corrupt_payload_is_500 [OF s3 d3, of None None] g y
  show ?thesis by simp
qed

text \<open>
  C5 does not hold of every read as stated: with a secret configured and no credential,
  a read of a key whose stored payload is not JSON is answered with the 401 of the gate,
  which runs before the row is fetched.
\<close>

theorem corrupt_payload_is_500_counterexample:
  "decode_stored strict_scalars (Text (NotJson ''{not json'')) = None \<and>
   GET_charts strict_scalars (Some ''s3cret'')
     \<lparr>chart_cache = Some [\<lparr>basket_id = ''tech-5'', year = 2024,
          payload = Text (NotJson ''{not json''), updated_at_ms = 1700000000001\<rparr>],
       connects = 2\<rparr> ''tech-5'' 2024 None =
     (Inl (HTTPException 401 ''Unauthorized''),
      \<lparr>chart_cache = Some [\<lparr>basket_id = ''tech-5'', year = 2024,
          payload = Text (NotJson ''{not json''), updated_at_ms = 1700000000001\<rparr>],
       connects = 2\<rparr>)"
  by (simp add: decode_stored_def decode_def GET_charts_def get_chart_def require_api_key_def)

subsection \<open>A key never written\<close>

text \<open>
  C6. Let no write to \<open>(b, y)\<close> have been performed in a run of the service from a new
  file. A read of \<open>(b, y)\<close> after the run never returns a payload; with a credential the
  gate accepts and a year that fits a signed 64-bit integer it fails with
  \<open>HTTPException 404\<close>, in the handler and so in the route.
\<close>

theorem never_written_not_found:
  assumes "(b, y) \<notin> set (performed K (on_startup fresh) reqs)"
  shows "(\<exists>e. fst (get_chart K (serve K (on_startup fresh) reqs) b y k) = Inl e) \<and>
     (require_api_key K k = Inr () \<and> sqlite_integer y \<longrightarrow>
        fst (get_chart K (serve K (on_startup fresh) reqs) b y k) =
          Inl (HTTPException 404 ''Not found'') \<and>
        fst (GET_charts V K (serve K (on_startup fresh) reqs) b y k) =
          Inl (HTTPException 404 ''Not found''))"
proof -
  let ?w = "serve K (on_startup fresh) reqs"
  have "rows_of (on_startup fresh) = []"
    by (simp add: on_startup_def init_db_def get_conn_def fresh_def rows_of_def Let_def)
  with serve_keys [of K "on_startup fresh" reqs] assms
  have "(b, y) \<notin> set (map key_of (rows_of ?w))" by auto
  then have none: "stored ?w b y = None"
    by (simp add: stored_rows lookup_None_iff)
  have init: "initialised ?w"
    by (simp add: serve_initialised startup_initialised)
  have 1: "\<exists>e. fst (get_chart K ?w b y k) = Inl e"
    by (simp add: get_chart_fst none init split: sum.splits)
  have 2: "fst (get_chart K ?w b y k) = Inl (HTTPException 404 ''Not found'')"
    if "require_api_key K k = Inr () \<and> sqlite_integer y"
    using that by (simp add: get_chart_fst none init)
  from 1 2 show ?thesis by (simp add: GET_charts_fst)
qed

theorem never_written_not_found_witness:
  "(''energy-3'', 2024) \<notin>
     set (performed None (on_startup fresh) [Write ''tech-5'' 2024 tech5 None 1700000000001]) \<and>
   require_api_key None None = Inr () \<and> sqlite_integer 2024 \<and>
   fst (get_chart None
          (serve None (on_startup fresh) [Write ''tech-5'' 2024 tech5 None 1700000000001])
          ''energy-3'' 2024 None) = Inl (HTTPException 404 ''Not found'')"
proof -
  have p: "(''energy-3'', 2024) \<notin>
     set (performed None (on_startup fresh) [Write ''tech-5'' 2024 tech5 None 1700000000001])"
    by (simp split: sum.splits)
  have g: "require_api_key None None = Inr ()" by (simp add: require_api_key_def)
  have y: "sqlite_integer 2024" by (simp add: sqlite_integer_def)
  from never_written_not_found [OF p, of None strict_scalars] p g y show ?thesis by simp
qed

text \<open>
  C6 does not hold for every year: a read of year \<open>2 ^ 63\<close> on the empty table ends in
  \<open>OverflowError\<close>, answered with 500, because \<^verbatim>\<open>sqlite3\<close> cannot bind the year.
\<close>

theorem never_written_not_found_counterexample:
  "performed None (on_startup fresh) [] = [] \<and>
   fst (get_chart None (serve None (on_startup fresh) []) ''tech-5'' (2 ^ 63) None) =
     Inl OverflowError \<and>
   status_code OverflowError = 500"
  by (simp add: serve_def on_startup_def init_db_def fresh_def get_chart_def
      require_api_key_def get_conn_def execute_select_def sqlite_integer_def Let_def)

subsection \<open>Other keys are not touched\<close>

text \<open>
  C7. For keys \<open>(b1, y1)\<close> and \<open>(b2, y2)\<close> that differ in the basket or in the year, a
  write to \<open>(b1, y1)\<close>, whether it succeeds or fails, leaves the row stored at \<open>(b2, y2)\<close>
  as it was, and so a read of \<open>(b2, y2)\<close> answers after the write what it answered
  before.
\<close>

theorem key_isolation:
  "b1 \<noteq> b2 \<or> y1 \<noteq> y2 \<Longrightarrow>
     stored (snd (upsert_chart K now w b1 y1 p k)) b2 y2 = stored w b2 y2 \<and>
     fst (get_chart K' (snd (upsert_chart K now w b1 y1 p k)) b2 y2 k') =
       fst (get_chart K' w b2 y2 k')"
proof -
  assume keys: "b1 \<noteq> b2 \<or> y1 \<noteq> y2"
  have st: "stored (snd (upsert_chart K now w b1 y1 p k)) b2 y2 = stored w b2 y2"
    using keys by (rule upsert_chart_stored_other)
  show ?thesis
    unfolding get_chart_fst upsert_chart_initialised st by simp
qed

theorem key_isolation_witness:
  "stored (snd (upsert_chart None 1700000000002
       (snd (upsert_chart None 1700000000001 started ''tech-5'' 2024 tech5 None))
       ''tech-5'' 2025 tech5_more None)) ''tech-5'' 2024 =
     Some \<lparr>basket_id = ''tech-5'', year = 2024, payload = Text (model_dump_json tech5),
       updated_at_ms = 1700000000001\<rparr>"
proof -
  have keys: "''tech-5'' \<noteq> ''tech-5'' \<or> (2025::int) \<noteq> 2024" by simp
  from key_isolation [OF keys, of None 1700000000002
      "snd (upsert_chart None 1700000000001 started ''tech-5'' 2024 tech5 None)" tech5_more None
      None None]
  show ?thesis by (simp add: write_example stored_def)
qed

subsection \<open>Writing the same payload twice\<close>

text \<open>
  C8. When the same basket, year and payload are written twice in succession, at clock
  readings \<open>t1\<close> and then \<open>t2\<close>, the table after the second write holds the same
  payloads under the same keys as after the first, the payload at the key is the
  serialised payload, the \<open>updated_at_ms\<close> stored at the key is \<open>t2\<close>, and \<open>t2\<close> is also
  the \<open>updatedAtMs\<close> the second write answers with.
\<close>

theorem same_write_twice:
  assumes "upsert_chart K t1 w b y p k1 = (Inr r1, w1)"
    and "upsert_chart K t2 w1 b y p k2 = (Inr r2, w2)"
  shows "map payload (rows_of w2) = map payload (rows_of w1) \<and>
     map key_of (rows_of w2) = map key_of (rows_of w1) \<and>
     map_option payload (stored w1 b y) = Some (Text (model_dump_json p)) \<and>
     map_option payload (stored w2 b y) = Some (Text (model_dump_json p)) \<and>
     map_option updated_at_ms (stored w2 b y) = Some t2 \<and>
     r2 = \<lparr>ok = True, updatedAtMs = t2\<rparr>"
proof -
  let ?n1 = "\<lparr>basket_id = b, year = y, payload = Text (model_dump_json p), updated_at_ms = t1\<rparr>"
  let ?n2 = "\<lparr>basket_id = b, year = y, payload = Text (model_dump_json p), updated_at_ms = t2\<rparr>"
  from assms(1) have w1: "rows_of w1 = upsert (rows_of w) ?n1"
    using upsert_chart_cases [of K t1 w b y p k1 r1 w1] by blast
  from assms(2) have w2: "rows_of w2 = upsert (rows_of w1) ?n2"
    and r2: "r2 = \<lparr>ok = True, updatedAtMs = t2\<rparr>"
    using upsert_chart_cases [of K t2 w1 b y p k2 r2 w2] by blast+
  have same: "map payload (rows_of w2) = map payload (rows_of w1) \<and>
     map key_of (rows_of w2) = map key_of (rows_of w1)"
    using upsert_twice [of ?n2 ?n1 "rows_of w"] w1 w2 by simp
  have s1: "map_option payload (stored w1 b y) = Some (Text (model_dump_json p))"
    using lookup_upsert_same [of "rows_of w" ?n1] w1
    by (simp add: stored_rows split: option.splits)
  have s2: "map_option payload (stored w2 b y) = Some (Text (model_dump_json p)) \<and>
     map_option updated_at_ms (stored w2 b y) = Some t2"
    using lookup_upsert_same [of "rows_of w1" ?n2] w2
    by (simp add: stored_rows split: option.splits)
  from same s1 s2 r2 show ?thesis by simp
qed

theorem same_write_twice_witness:
  "upsert_chart None 1700000000001 started ''tech-5'' 2024 tech5 None =
     (Inr \<lparr>ok = True, updatedAtMs = 1700000000001\<rparr>,
      \<lparr>chart_cache = Some [\<lparr>basket_id = ''tech-5'', year = 2024,
          payload = Text (model_dump_json tech5), updated_at_ms = 1700000000001\<rparr>], connects = 2\<rparr>) \<and>
   upsert_chart None 1700000000009
      \<lparr>chart_cache = Some [\<lparr>basket_id = ''tech-5'', year = 2024,
          payload = Text (model_dump_json tech5), updated_at_ms = 1700000000001\<rparr>], connects = 2\<rparr>
      ''tech-5'' 2024 tech5 None =
     (Inr \<lparr>ok = True, updatedAtMs = 1700000000009\<rparr>,
      \<lparr>chart_cache = Some [\<lparr>basket_id = ''tech-5'', year = 2024,
          payload = Text (model_dump_json tech5), updated_at_ms = 1700000000009\<rparr>], connects = 3\<rparr>) \<and>
   map_option updated_at_ms
     (stored \<lparr>chart_cache = Some [\<lparr>basket_id = ''tech-5'', year = 2024,
          payload = Text (model_dump_json tech5), updated_at_ms = 1700000000009\<rparr>], connects = 3\<rparr>
        ''tech-5'' 2024) = Some 1700000000009"
proof -
  let ?w1 = "\<lparr>chart_cache = Some [\<lparr>basket_id = ''tech-5'', year = 2024,
          payload = Text (model_dump_json tech5), updated_at_ms = 1700000000001\<rparr>], connects = 2\<rparr>"
  let ?w2 = "\<lparr>chart_cache = Some [\<lparr>basket_id = ''tech-5'', year = 2024,
          payload = Text (model_dump_json tech5), updated_at_ms = 1700000000009\<rparr>], connects = 3\<rparr>"
  have put2: "upsert_chart None 1700000000009 ?w1 ''tech-5'' 2024 tech5 None =
     (Inr \<lparr>ok = True, updatedAtMs = 1700000000009\<rparr>, ?w2)"
    by (simp add: upsert_chart_def require_api_key_def tech5_def get_conn_def
      execute_upsert_def sqlite_integer_def)
  from same_write_twice [OF write_example put2] write_example put2
  show ?thesis by simp
qed

subsection \<open>The gate and the request body\<close>




subsection \<open>What a write stores\<close>




end
